theory Spec2Isabelle
  imports Main "HOL-Library.Word"
begin

section \<open>Errors\<close>

text \<open>
  Go error values. \<open>errors_New t\<close> is \<^verbatim>\<open>errors.New(t)\<close> (and \<^verbatim>\<open>fmt.Errorf\<close> without
  \<^verbatim>\<open>%w\<close>); \<open>fmt_Errorf p e\<close> is \<^verbatim>\<open>fmt.Errorf(p + "%w", e)\<close>, which wraps \<open>e\<close>.
  The three sentinels are package-level error variables of the libraries the code
  imports (\<^verbatim>\<open>storage.ErrDuplicateStore\<close>, \<^verbatim>\<open>storage.ErrValueNotFound\<close>,
  \<^verbatim>\<open>sql.ErrNoRows\<close>); Go compares them by identity, so they are constructors of their own,
  distinct from every \<open>errors_New\<close> value.
\<close>

datatype error =
    ErrDuplicateStore
  | ErrValueNotFound
  | ErrNoRows
  | errors_New string
  | fmt_Errorf string error

text \<open>\<^verbatim>\<open>err.Error()\<close>. The texts of the sentinels are those their libraries declare; no
  result below depends on them.\<close>

fun Error :: "error \<Rightarrow> string" where
  "Error ErrDuplicateStore = ''store already exists''"
| "Error ErrValueNotFound = ''store does not have a value associated with this key''"
| "Error ErrNoRows = ''sql: no rows in result set''"
| "Error (errors_New t) = t"
| "Error (fmt_Errorf p e) = p @ Error e"

text \<open>\<^verbatim>\<open>errors.Is(err, target)\<close>: walks the chain of wrapped errors.\<close>

fun errors_Is :: "error \<Rightarrow> error \<Rightarrow> bool" where
  "errors_Is (fmt_Errorf p e) target = (fmt_Errorf p e = target \<or> errors_Is e target)"
| "errors_Is e target = (e = target)"

section \<open>Message service (pkg/message/service.go)\<close>

subsection \<open>Constants\<close>

definition msgTypeBaseURI :: string where
  "msgTypeBaseURI = ''https://trustbloc.dev/blinded-routing/1.0''"

definition didDocReq :: string where
  "didDocReq = msgTypeBaseURI @ ''/diddoc-req''"

definition didDocResp :: string where
  "didDocResp = msgTypeBaseURI @ ''/diddoc-resp''"

definition registerRouteReq :: string where
  "registerRouteReq = msgTypeBaseURI @ ''/register-route-req''"

definition registerRouteResp :: string where
  "registerRouteResp = msgTypeBaseURI @ ''/register-route-resp''"


subsection \<open>Data\<close>

type_synonym bytes = string

text \<open>A \<^verbatim>\<open>did.Doc\<close>: its \<^verbatim>\<open>ID\<close> field and the outcome of its method \<^verbatim>\<open>JSONBytes()\<close>.\<close>

record Doc =
  Doc_ID :: string
  JSONBytes :: "error + bytes"

text \<open>
  Modelled from the spec: the payload type \<^verbatim>\<open>ConnReq\<close> of the registration request is
  declared outside the files at hand. The spec gives its shape: the raw document bytes
  \<^verbatim>\<open>did_doc\<close> nested under a \<^verbatim>\<open>Data\<close> field, either level possibly absent
  (\<^verbatim>\<open>nil\<close> in the code).
\<close>

record ConnReqData =
  DIDDoc :: "bytes option"

record ConnReq =
  Data :: "ConnReqData option"

text \<open>A \<^verbatim>\<open>service.DIDCommMsg\<close>, by its four methods used here; \<open>Decode\<close> is the outcome
  of \<^verbatim>\<open>msg.Decode(&pMsg)\<close>.\<close>

record DIDCommMsg =
  Type :: string
  ID :: string
  ParentThreadID :: string
  Decode :: "error + ConnReq"

text \<open>
  The reply envelopes handed to \<^verbatim>\<open>service.NewDIDCommMsgMap\<close>: each with its \<^verbatim>\<open>ID\<close> and
  \<^verbatim>\<open>Type\<close>; \<open>DIDDocResp\<close> carries the document bytes, \<open>ErrorResp\<close> the error message,
  \<open>ConnResp\<close> nothing.
\<close>

datatype DIDCommMsgMap =
    DIDDocResp string string bytes
  | ConnResp string string
  | ErrorResp string string string

text \<open>Every call the service makes to a collaborator, in the order made.\<close>

datatype call =
    VDRCreate string string
  | StorePut string bytes
  | StoreGet string
  | MsgDecode
  | DocJSONBytes Doc
  | ParseDocument bytes
  | CreateConnection string Doc
  | MediatorRegister string
  | UUIDNew
  | ReplyTo string DIDCommMsgMap
  | LoggerErrorf string
  | LoggerInfof string

text \<open>
  The collaborators are interfaces; each is the function giving the outcome of a call
  from the calls made so far and the arguments. A store handle (\<^verbatim>\<open>storage.Store\<close>) is
  the error, if any, with which a \<^verbatim>\<open>Put\<close> fails.
\<close>

type_synonym Store = "call list \<Rightarrow> string \<Rightarrow> bytes \<Rightarrow> error option"

record Service =
  didExchange :: "call list \<Rightarrow> string \<Rightarrow> Doc \<Rightarrow> error + string"
  mediator :: "call list \<Rightarrow> string \<Rightarrow> error option"
  messenger :: "call list \<Rightarrow> string \<Rightarrow> DIDCommMsgMap \<Rightarrow> error option"
  vdriRegistry :: "call list \<Rightarrow> string \<Rightarrow> string \<Rightarrow> error + Doc"
  endpoint :: string
  tStore :: Store

text \<open>The package-level functions \<^verbatim>\<open>did.ParseDocument\<close> and \<^verbatim>\<open>uuid.New().String()\<close>.\<close>

record Lib =
  did_ParseDocument :: "bytes \<Rightarrow> error + Doc"
  uuid_New :: "call list \<Rightarrow> string"

text \<open>What changes while the service runs: the contents of the transaction store and
  the calls made so far (the newest last).\<close>

record world =
  txns :: "string \<rightharpoonup> bytes"
  trace :: "call list"

definition called :: "call \<Rightarrow> world \<Rightarrow> world" where
  "called c w = w\<lparr>trace := trace w @ [c]\<rparr>"

text \<open>The calls made from the world \<open>w\<close> to the later world \<open>w'\<close>.\<close>

definition calls_since :: "world \<Rightarrow> world \<Rightarrow> call list" where
  "calls_since w w' = drop (length (trace w)) (trace w')"


text \<open>The ids replied to, in the order of the replies.\<close>

fun replies :: "call list \<Rightarrow> string list" where
  "replies [] = []"
| "replies (ReplyTo i m # cs) = i # replies cs"
| "replies (c # cs) = replies cs"

subsection \<open>Transaction store\<close>

text \<open>
  Modelled from the spec: the store behind \<^verbatim>\<open>storage.Store\<close> is a library. By the spec,
  \<open>put(key, value)\<close> associates a value with a key, overwriting silently, and may fail
  with a persistence error; \<open>get(key)\<close> fails with a NotFound-class error when the
  key is absent.
\<close>

definition Put :: "Service \<Rightarrow> world \<Rightarrow> string \<Rightarrow> bytes \<Rightarrow> error option \<times> world" where
  "Put svc w k v =
     (case tStore svc (trace w) k v of
        Some err \<Rightarrow> (Some err, called (StorePut k v) w)
      | None \<Rightarrow> (None, called (StorePut k v) (w\<lparr>txns := (txns w)(k \<mapsto> v)\<rparr>)))"

definition Get :: "world \<Rightarrow> string \<Rightarrow> (error + bytes) \<times> world" where
  "Get w k =
     (case txns w k of
        None \<Rightarrow> (Inl ErrValueNotFound, called (StoreGet k) w)
      | Some v \<Rightarrow> (Inr v, called (StoreGet k) w))"

subsection \<open>Handlers\<close>

definition handleDIDDocReq ::
  "Lib \<Rightarrow> Service \<Rightarrow> world \<Rightarrow> DIDCommMsg \<Rightarrow> (error + DIDCommMsgMap) \<times> world" where
  "handleDIDDocReq lib svc w msg =
     (let w1 = called (VDRCreate ''peer'' (endpoint svc)) w in
      case vdriRegistry svc (trace w) ''peer'' (endpoint svc) of
        Inl err \<Rightarrow> (Inl (fmt_Errorf ''create new peer did : '' err), w1)
      | Inr newDidDoc \<Rightarrow>
          (case Put svc w1 (ID msg) (Doc_ID newDidDoc) of
             (Some err, w2) \<Rightarrow> (Inl (fmt_Errorf ''save txn data : '' err), w2)
           | (None, w2) \<Rightarrow>
               (let w3 = called (DocJSONBytes newDidDoc) w2 in
                case JSONBytes newDidDoc of
                  Inl err \<Rightarrow> (Inl (fmt_Errorf ''marshal did doc : '' err), w3)
                | Inr docBytes \<Rightarrow>
                    (Inr (DIDDocResp (uuid_New lib (trace w3)) didDocResp docBytes),
                     called UUIDNew w3))))"

definition handleConnReq ::
  "Lib \<Rightarrow> Service \<Rightarrow> world \<Rightarrow> DIDCommMsg \<Rightarrow> (error + DIDCommMsgMap) \<times> world" where
  "handleConnReq lib svc w msg =
     (let w1 = called MsgDecode w in
      case Decode msg of
        Inl err \<Rightarrow> (Inl (fmt_Errorf ''parse didcomm message : '' err), w1)
      | Inr pMsg \<Rightarrow>
          if ParentThreadID msg = [] then (Inl (errors_New ''parent thread id mandatory''), w1)
          else
            (case (case Data pMsg of None \<Rightarrow> None | Some d \<Rightarrow> DIDDoc d) of
               None \<Rightarrow> (Inl (errors_New ''did document mandatory''), w1)
             | Some raw \<Rightarrow>
                 (let w2 = called (ParseDocument raw) w1 in
                  case did_ParseDocument lib raw of
                    Inl err \<Rightarrow> (Inl (fmt_Errorf ''parse did doc : '' err), w2)
                  | Inr didDoc \<Rightarrow>
                      (case Get w2 (ParentThreadID msg) of
                         (Inl err, w3) \<Rightarrow> (Inl (fmt_Errorf ''fetch txn data : '' err), w3)
                       | (Inr txnID, w3) \<Rightarrow>
                           (let w4 = called (CreateConnection txnID didDoc) w3 in
                            case didExchange svc (trace w3) txnID didDoc of
                              Inl err \<Rightarrow> (Inl (fmt_Errorf ''create connection : '' err), w4)
                            | Inr connID \<Rightarrow>
                                (let w5 = called (MediatorRegister connID) w4 in
                                 case mediator svc (trace w4) connID of
                                   Some err \<Rightarrow>
                                     (Inl (fmt_Errorf ''route registration : '' err), w5)
                                 | None \<Rightarrow>
                                     (Inr (ConnResp (uuid_New lib (trace w5)) registerRouteResp),
                                      called UUIDNew w5)))))))"

subsection \<open>Dispatcher\<close>

text \<open>One turn of the loop of \<^verbatim>\<open>didCommMsgListener\<close>, for the message \<open>msg\<close> taken from
  the channel.\<close>

definition didCommMsgListener_turn :: "Lib \<Rightarrow> Service \<Rightarrow> world \<Rightarrow> DIDCommMsg \<Rightarrow> world" where
  "didCommMsgListener_turn lib svc w msg =
     (let (r, w1) =
            (if Type msg = didDocReq then handleDIDDocReq lib svc w msg
             else if Type msg = registerRouteReq then handleConnReq lib svc w msg
             else (Inl (errors_New (''unsupported message service type : '' @ Type msg)), w));
          (msgMap, w2) =
            (case r of
               Inr m \<Rightarrow> (m, w1)
             | Inl err \<Rightarrow>
                 (let msgType =
                        (if Type msg = didDocReq then didDocResp
                         else if Type msg = registerRouteReq then registerRouteResp
                         else Type msg)
                  in (ErrorResp (uuid_New lib (trace w1)) msgType (Error err),
                      called (LoggerErrorf (''msgType=['' @ Type msg @ ''] id=['' @ ID msg
                                @ ''] errMsg=['' @ Error err @ '']''))
                        (called UUIDNew w1))));
          w3 = called (ReplyTo (ID msg) msgMap) w2
      in case messenger svc (trace w2) (ID msg) msgMap of
           Some err \<Rightarrow>
             called (LoggerErrorf (''sendReply : msgType=['' @ Type msg @ ''] id=['' @ ID msg
                       @ ''] errMsg=['' @ Error err @ '']'')) w3
         | None \<Rightarrow>
             called (LoggerInfof (''msgType=['' @ Type msg @ ''] id=['' @ ID msg
                       @ ''] msg=[success]'')) w3)"

text \<open>The loop over the channel: the messages in the order received, until the channel
  is closed.\<close>

fun didCommMsgListener :: "Lib \<Rightarrow> Service \<Rightarrow> world \<Rightarrow> DIDCommMsg list \<Rightarrow> world" where
  "didCommMsgListener lib svc w [] = w"
| "didCommMsgListener lib svc w (msg # ch) =
     didCommMsgListener lib svc (didCommMsgListener_turn lib svc w msg) ch"

subsection \<open>Construction\<close>





section \<open>Relying parties (pkg/db/relying_parties.go)\<close>

definition sqlRelyingPartyFindByClientID :: string where
  "sqlRelyingPartyFindByClientID = ''select * from relying_party where client_id = ?''"

text \<open>What \<^verbatim>\<open>Scan(&result.ID, &result.ClientID, &dbDID)\<close> fills in from a row: the three
  columns, in the order scanned.\<close>

record row =
  row_id :: "64 word"
  row_client_id :: string
  row_did :: string

record 'd RelyingParty =
  rp_ID :: "64 word"
  rp_ClientID :: string
  rp_DID :: 'd

text \<open>
  The DAO holds the database handle \<^verbatim>\<open>DB\<close>. The database is outside the code: the
  handle is the function giving, for a query and its argument, the outcome of
  \<^verbatim>\<open>DB.QueryRow(query, arg).Scan(...)\<close>, which is either the row scanned or the error of
  the query or of the scan (no row, a driver or connection error, a conversion error).
\<close>

record RelyingParties =
  DB :: "string \<Rightarrow> string \<Rightarrow> error + row"

text \<open>\<open>FindByClientID\<close>; \<open>did_Parse\<close> is the library function \<^verbatim>\<open>did.Parse\<close>.\<close>

definition FindByClientID ::
  "(string \<Rightarrow> error + 'd) \<Rightarrow> RelyingParties \<Rightarrow> string \<Rightarrow> error + 'd RelyingParty" where
  "FindByClientID did_Parse r cid =
     (case DB r sqlRelyingPartyFindByClientID cid of
        Inl err \<Rightarrow> Inl (fmt_Errorf ''failed to query relying_party by client_id : '' err)
      | Inr scanned \<Rightarrow>
          (case did_Parse (row_did scanned) of
             Inl err \<Rightarrow>
               Inl (fmt_Errorf (''failed to parse rpDID '' @ row_did scanned @ '' : '') err)
           | Inr d \<Rightarrow>
               Inr \<lparr>rp_ID = row_id scanned, rp_ClientID = row_client_id scanned, rp_DID = d\<rparr>))"

section \<open>Concrete collaborators\<close>



definition ex_db :: RelyingParties where
  "ex_db =
     \<lparr>DB = (\<lambda>query arg.
        if query \<noteq> sqlRelyingPartyFindByClientID then Inl (errors_New ''syntax error'')
        else if arg = ''rp-a''
          then Inr \<lparr>row_id = 1, row_client_id = ''rp-a'', row_did = ''did:peer:abc''\<rparr>
        else if arg = ''rp-b''
          then Inr \<lparr>row_id = 2, row_client_id = ''rp-b'', row_did = ''not a did''\<rparr>
        else if arg = ''rp-c'' then Inl (errors_New ''driver: bad connection'')
        else Inl ErrNoRows)\<rparr>"

definition ex_did_Parse :: "string \<Rightarrow> error + string list" where
  "ex_did_Parse s =
     (if take 4 s = ''did:'' then Inr [''did'', drop 4 s]
      else Inl (errors_New ''invalid did''))"

definition ex_doc :: "string \<Rightarrow> Doc" where
  "ex_doc n = \<lparr>Doc_ID = ''did:peer:'' @ n, JSONBytes = Inr (''{id:'' @ n @ ''}'')\<rparr>"

definition ex_lib :: Lib where
  "ex_lib =
     \<lparr>did_ParseDocument =
        (\<lambda>raw. if take 4 raw = ''{id:'' then Inr (ex_doc (butlast (drop 4 raw)))
               else Inl (errors_New ''invalid document'')),
      uuid_New = (\<lambda>t. replicate (length t) CHR ''u'')\<rparr>"

definition ex_svc :: Service where
  "ex_svc =
     \<lparr>didExchange = (\<lambda>t myDID d. Inr (''conn:'' @ myDID)),
      mediator = (\<lambda>t c. None),
      messenger = (\<lambda>t i m. None),
      vdriRegistry = (\<lambda>t m e. Inr (ex_doc (if t = [] then ''a'' else ''b''))),
      endpoint = ''https://adapter.example/didcomm'',
      tStore = (\<lambda>t k v. None)\<rparr>"

definition ex_world :: world where
  "ex_world = \<lparr>txns = Map.empty, trace = []\<rparr>"

definition ex_msg :: "string \<Rightarrow> string \<Rightarrow> string \<Rightarrow> error + ConnReq \<Rightarrow> DIDCommMsg" where
  "ex_msg t i p d = \<lparr>Type = t, ID = i, ParentThreadID = p, Decode = d\<rparr>"

definition ex_payload :: "bytes \<Rightarrow> error + ConnReq" where
  "ex_payload raw = Inr \<lparr>Data = Some \<lparr>DIDDoc = Some raw\<rparr>\<rparr>"

definition ex_bad_doc :: Doc where
  "ex_bad_doc = \<lparr>Doc_ID = ''did:peer:z'', JSONBytes = Inl (errors_New ''unsupported key type'')\<rparr>"

definition ex_reg :: "bytes \<Rightarrow> DIDCommMsg" where
  "ex_reg raw = ex_msg registerRouteReq ''m7'' ''r1'' (ex_payload raw)"

definition ex_req :: DIDCommMsg where
  "ex_req = ex_msg didDocReq ''r1'' [] (Inl (errors_New ''no payload''))"

definition ex_world1 :: world where
  "ex_world1 =
     \<lparr>txns = [''r1'' \<mapsto> ''did:peer:a''],
      trace = [VDRCreate ''peer'' ''https://adapter.example/didcomm'',
               StorePut ''r1'' ''did:peer:a'', DocJSONBytes (ex_doc ''a''), UUIDNew]\<rparr>"

definition ex_world2 :: world where
  "ex_world2 =
     \<lparr>txns = [''r1'' \<mapsto> ''did:peer:b''],
      trace = [VDRCreate ''peer'' ''https://adapter.example/didcomm'',
               StorePut ''r1'' ''did:peer:a'', DocJSONBytes (ex_doc ''a''), UUIDNew,
               VDRCreate ''peer'' ''https://adapter.example/didcomm'',
               StorePut ''r1'' ''did:peer:b'', DocJSONBytes (ex_doc ''b''), UUIDNew]\<rparr>"



definition ex_ping :: DIDCommMsg where
  "ex_ping = ex_msg ''https://didcomm.org/trust-ping/1.0/ping'' ''m9'' [] (Inr \<lparr>Data = None\<rparr>)"

section \<open>Construction of the service\<close>






section \<open>Looking up a relying party\<close>

text \<open>
  C10. \<open>FindByClientID\<close> returns a relying party only when the query has given a row
  and \<^verbatim>\<open>did.Parse\<close> accepts the DID string of that row, and the DID of the record
  returned is the parse of that string (its id and client id are those of the row). When
  the row is there and its DID string does not parse, the call returns the parse error,
  wrapped under \<^verbatim>\<open>failed to parse rpDID\<close> and the string, and no record; when the query
  or the scan fails, it returns that error, wrapped, and no record.
\<close>

theorem FindByClientID_parsed_DID:
  "(FindByClientID did_Parse r cid = Inr rp \<longrightarrow>
      (\<exists>scanned. DB r sqlRelyingPartyFindByClientID cid = Inr scanned
          \<and> did_Parse (row_did scanned) = Inr (rp_DID rp)
          \<and> rp_ID rp = row_id scanned \<and> rp_ClientID rp = row_client_id scanned))
   \<and> (DB r sqlRelyingPartyFindByClientID cid = Inr scanned
        \<and> did_Parse (row_did scanned) = Inl err \<longrightarrow>
        FindByClientID did_Parse r cid
          = Inl (fmt_Errorf (''failed to parse rpDID '' @ row_did scanned @ '' : '') err))
   \<and> (DB r sqlRelyingPartyFindByClientID cid = Inl err \<longrightarrow>
        FindByClientID did_Parse r cid
          = Inl (fmt_Errorf ''failed to query relying_party by client_id : '' err))"
proof (intro conjI impI)
  assume a: "FindByClientID did_Parse r cid = Inr rp"
  then obtain scanned where q: "DB r sqlRelyingPartyFindByClientID cid = Inr scanned"
    by (auto simp: FindByClientID_def split: sum.splits)
  from a q obtain d where d: "did_Parse (row_did scanned) = Inr d"
    and rp: "rp = \<lparr>rp_ID = row_id scanned, rp_ClientID = row_client_id scanned, rp_DID = d\<rparr>"
    by (auto simp: FindByClientID_def split: sum.splits)
  show "\<exists>scanned. DB r sqlRelyingPartyFindByClientID cid = Inr scanned
          \<and> did_Parse (row_did scanned) = Inr (rp_DID rp)
          \<and> rp_ID rp = row_id scanned \<and> rp_ClientID rp = row_client_id scanned"
    using q d rp by simp
next
  assume "DB r sqlRelyingPartyFindByClientID cid = Inr scanned
        \<and> did_Parse (row_did scanned) = Inl err"
  then show "FindByClientID did_Parse r cid
          = Inl (fmt_Errorf (''failed to parse rpDID '' @ row_did scanned @ '' : '') err)"
    by (simp add: FindByClientID_def)
next
  assume "DB r sqlRelyingPartyFindByClientID cid = Inl err"
  then show "FindByClientID did_Parse r cid
          = Inl (fmt_Errorf ''failed to query relying_party by client_id : '' err)"
    by (simp add: FindByClientID_def)
qed

theorem FindByClientID_parsed_DID_witness:
  "FindByClientID ex_did_Parse ex_db ''rp-a''
     = Inr \<lparr>rp_ID = 1, rp_ClientID = ''rp-a'', rp_DID = [''did'', ''peer:abc'']\<rparr>
   \<and> ex_did_Parse ''did:peer:abc'' = Inr [''did'', ''peer:abc'']
   \<and> FindByClientID ex_did_Parse ex_db ''rp-b''
     = Inl (fmt_Errorf ''failed to parse rpDID not a did : '' (errors_New ''invalid did''))
   \<and> FindByClientID ex_did_Parse ex_db ''rp-c''
     = Inl (fmt_Errorf ''failed to query relying_party by client_id : ''
              (errors_New ''driver: bad connection''))"
proof -
  have a: "FindByClientID ex_did_Parse ex_db ''rp-a''
     = Inr \<lparr>rp_ID = 1, rp_ClientID = ''rp-a'', rp_DID = [''did'', ''peer:abc'']\<rparr>"
    by (simp add: FindByClientID_def ex_db_def ex_did_Parse_def)
  have b: "DB ex_db sqlRelyingPartyFindByClientID ''rp-b''
             = Inr \<lparr>row_id = 2, row_client_id = ''rp-b'', row_did = ''not a did''\<rparr>"
    "ex_did_Parse ''not a did'' = Inl (errors_New ''invalid did'')"
    "DB ex_db sqlRelyingPartyFindByClientID ''rp-c'' = Inl (errors_New ''driver: bad connection'')"
    "DB ex_db sqlRelyingPartyFindByClientID ''rp-a''
             = Inr \<lparr>row_id = 1, row_client_id = ''rp-a'', row_did = ''did:peer:abc''\<rparr>"
    by (simp_all add: ex_db_def ex_did_Parse_def)
  show ?thesis
    using a b
      FindByClientID_parsed_DID [where did_Parse = ex_did_Parse and r = ex_db and cid = "''rp-a''"
        and rp = "\<lparr>rp_ID = 1, rp_ClientID = ''rp-a'', rp_DID = [''did'', ''peer:abc'']\<rparr>"]
      FindByClientID_parsed_DID [where did_Parse = ex_did_Parse and r = ex_db and cid = "''rp-b''"
        and scanned = "\<lparr>row_id = 2, row_client_id = ''rp-b'', row_did = ''not a did''\<rparr>"
        and err = "errors_New ''invalid did''"]
      FindByClientID_parsed_DID [where did_Parse = ex_did_Parse and r = ex_db and cid = "''rp-c''"
        and err = "errors_New ''driver: bad connection''"]
    by auto
qed

section \<open>The document request\<close>

lemma handleDIDDocReq_Inr:
  assumes "handleDIDDocReq lib svc w msg = (Inr m, w')"
  shows "\<exists>newDidDoc docBytes.
           vdriRegistry svc (trace w) ''peer'' (endpoint svc) = Inr newDidDoc
         \<and> tStore svc (trace w @ [VDRCreate ''peer'' (endpoint svc)]) (ID msg) (Doc_ID newDidDoc) = None
         \<and> JSONBytes newDidDoc = Inr docBytes
         \<and> m = DIDDocResp
                 (uuid_New lib (trace w @ [VDRCreate ''peer'' (endpoint svc),
                                           StorePut (ID msg) (Doc_ID newDidDoc),
                                           DocJSONBytes newDidDoc]))
                 didDocResp docBytes
         \<and> w' = w\<lparr>txns := (txns w)(ID msg \<mapsto> Doc_ID newDidDoc),
                   trace := trace w @ [VDRCreate ''peer'' (endpoint svc),
                                       StorePut (ID msg) (Doc_ID newDidDoc),
                                       DocJSONBytes newDidDoc, UUIDNew]\<rparr>"
  using assms
  by (auto simp: handleDIDDocReq_def Put_def called_def Let_def
           split: sum.splits option.splits)

text \<open>
  C1. When \<open>handleDIDDocReq\<close> succeeds it returns one \<open>DIDDocResp\<close>: its type is
  \<open>didDocResp\<close>, the base URI followed by \<^verbatim>\<open>/diddoc-resp\<close>, its payload is the bytes
  \<^verbatim>\<open>JSONBytes()\<close> gave for the document the registry has just created, and afterwards the
  transaction store holds the id of that document under the id of the request message.
\<close>

theorem handleDIDDocReq_success:
  assumes "handleDIDDocReq lib svc w msg = (Inr m, w')"
  shows "\<exists>newDidDoc docBytes i.
           vdriRegistry svc (trace w) ''peer'' (endpoint svc) = Inr newDidDoc
         \<and> JSONBytes newDidDoc = Inr docBytes
         \<and> m = DIDDocResp i didDocResp docBytes
         \<and> didDocResp = msgTypeBaseURI @ ''/diddoc-resp''
         \<and> txns w' (ID msg) = Some (Doc_ID newDidDoc)"
proof -
  from handleDIDDocReq_Inr [OF assms] obtain newDidDoc docBytes where
    c: "vdriRegistry svc (trace w) ''peer'' (endpoint svc) = Inr newDidDoc"
    and j: "JSONBytes newDidDoc = Inr docBytes"
    and m: "m = DIDDocResp
                 (uuid_New lib (trace w @ [VDRCreate ''peer'' (endpoint svc),
                                           StorePut (ID msg) (Doc_ID newDidDoc),
                                           DocJSONBytes newDidDoc]))
                 didDocResp docBytes"
    and w': "w' = w\<lparr>txns := (txns w)(ID msg \<mapsto> Doc_ID newDidDoc),
                   trace := trace w @ [VDRCreate ''peer'' (endpoint svc),
                                       StorePut (ID msg) (Doc_ID newDidDoc),
                                       DocJSONBytes newDidDoc, UUIDNew]\<rparr>"
    by blast
  from w' have "txns w' (ID msg) = Some (Doc_ID newDidDoc)" by simp
  with c j m show ?thesis by (simp add: didDocResp_def)
qed

lemma ex_docreq_run:
  "handleDIDDocReq ex_lib ex_svc ex_world (ex_msg didDocReq ''r1'' [] (Inl (errors_New ''no payload'')))
     = (Inr (DIDDocResp ''uuu'' didDocResp ''{id:a}''),
        \<lparr>txns = [''r1'' \<mapsto> ''did:peer:a''],
         trace = [VDRCreate ''peer'' ''https://adapter.example/didcomm'',
                  StorePut ''r1'' ''did:peer:a'', DocJSONBytes (ex_doc ''a''), UUIDNew]\<rparr>)"
  by (simp add: handleDIDDocReq_def Put_def called_def Let_def ex_lib_def ex_svc_def
        ex_world_def ex_msg_def ex_doc_def)

theorem handleDIDDocReq_success_witness:
  "handleDIDDocReq ex_lib ex_svc ex_world (ex_msg didDocReq ''r1'' [] (Inl (errors_New ''no payload'')))
     = (Inr (DIDDocResp ''uuu'' didDocResp ''{id:a}''),
        \<lparr>txns = [''r1'' \<mapsto> ''did:peer:a''],
         trace = [VDRCreate ''peer'' ''https://adapter.example/didcomm'',
                  StorePut ''r1'' ''did:peer:a'', DocJSONBytes (ex_doc ''a''), UUIDNew]\<rparr>)
   \<and> (\<exists>newDidDoc docBytes i.
         vdriRegistry ex_svc [] ''peer'' (endpoint ex_svc) = Inr newDidDoc
       \<and> JSONBytes newDidDoc = Inr docBytes
       \<and> DIDDocResp ''uuu'' didDocResp ''{id:a}'' = DIDDocResp i didDocResp docBytes
       \<and> [''r1'' \<mapsto> ''did:peer:a''] ''r1'' = Some (Doc_ID newDidDoc))"
  using ex_docreq_run handleDIDDocReq_success [OF ex_docreq_run]
  by (auto simp add: ex_world_def ex_msg_def)

text \<open>
  C7. In \<open>handleDIDDocReq\<close> the transaction entry is put before the document is
  serialised: when the registry creates the document and the put succeeds but
  \<^verbatim>\<open>JSONBytes()\<close> fails, the handler returns the error (wrapped under
  \<^verbatim>\<open>marshal did doc : \<close>), the calls made are the create, the put and then the
  serialisation, and the entry stays in the store under the id of the request.
\<close>

theorem handleDIDDocReq_no_rollback:
  assumes "vdriRegistry svc (trace w) ''peer'' (endpoint svc) = Inr newDidDoc"
    and "tStore svc (trace w @ [VDRCreate ''peer'' (endpoint svc)]) (ID msg) (Doc_ID newDidDoc) = None"
    and "JSONBytes newDidDoc = Inl err"
  shows "handleDIDDocReq lib svc w msg =
           (Inl (fmt_Errorf ''marshal did doc : '' err),
            w\<lparr>txns := (txns w)(ID msg \<mapsto> Doc_ID newDidDoc),
              trace := trace w @ [VDRCreate ''peer'' (endpoint svc),
                                  StorePut (ID msg) (Doc_ID newDidDoc),
                                  DocJSONBytes newDidDoc]\<rparr>)
         \<and> txns (snd (handleDIDDocReq lib svc w msg)) (ID msg) = Some (Doc_ID newDidDoc)"
  using assms
  by (simp add: handleDIDDocReq_def Put_def called_def Let_def)

theorem handleDIDDocReq_no_rollback_witness:
  "handleDIDDocReq ex_lib (ex_svc\<lparr>vdriRegistry := (\<lambda>t m e. Inr ex_bad_doc)\<rparr>) ex_world
       (ex_msg didDocReq ''r1'' [] (Inl (errors_New ''no payload'')))
     = (Inl (fmt_Errorf ''marshal did doc : '' (errors_New ''unsupported key type'')),
        \<lparr>txns = [''r1'' \<mapsto> ''did:peer:z''],
         trace = [VDRCreate ''peer'' ''https://adapter.example/didcomm'',
                  StorePut ''r1'' ''did:peer:z'', DocJSONBytes ex_bad_doc]\<rparr>)"
  using handleDIDDocReq_no_rollback [of "ex_svc\<lparr>vdriRegistry := (\<lambda>t m e. Inr ex_bad_doc)\<rparr>"
          ex_world ex_bad_doc "ex_msg didDocReq ''r1'' [] (Inl (errors_New ''no payload''))"
          "errors_New ''unsupported key type''" ex_lib]
  by (simp add: ex_svc_def ex_world_def ex_msg_def ex_bad_doc_def)

section \<open>The registration request\<close>

lemmas handleConnReq_unfold = handleConnReq_def Get_def called_def Let_def

text \<open>
  C3. \<open>handleConnReq\<close> validates in a fixed order and the first failure decides the
  error: a payload that does not decode gives the decode error (wrapped under
  \<^verbatim>\<open>parse didcomm message : \<close>), whatever the rest of the message; then an empty parent
  thread id gives \<^verbatim>\<open>parent thread id mandatory\<close>; then a missing \<^verbatim>\<open>Data\<close> or a
  missing document field gives \<^verbatim>\<open>did document mandatory\<close>; then document bytes that do
  not parse give the parse error (wrapped under \<^verbatim>\<open>parse did doc : \<close>). In each case
  the only calls made are the decode and, in the last, the parse that failed: no later
  validation step, no store lookup, no connection call and no mediator call.
\<close>

theorem handleConnReq_validation_order:
  "(Decode msg = Inl err \<longrightarrow>
      handleConnReq lib svc w msg =
        (Inl (fmt_Errorf ''parse didcomm message : '' err), w\<lparr>trace := trace w @ [MsgDecode]\<rparr>))
   \<and> (Decode msg = Inr pMsg \<and> ParentThreadID msg = [] \<longrightarrow>
      handleConnReq lib svc w msg =
        (Inl (errors_New ''parent thread id mandatory''), w\<lparr>trace := trace w @ [MsgDecode]\<rparr>))
   \<and> (Decode msg = Inr pMsg \<and> ParentThreadID msg \<noteq> []
        \<and> (Data pMsg = None \<or> (\<exists>d. Data pMsg = Some d \<and> DIDDoc d = None)) \<longrightarrow>
      handleConnReq lib svc w msg =
        (Inl (errors_New ''did document mandatory''), w\<lparr>trace := trace w @ [MsgDecode]\<rparr>))
   \<and> (Decode msg = Inr pMsg \<and> ParentThreadID msg \<noteq> []
        \<and> Data pMsg = Some d \<and> DIDDoc d = Some raw \<and> did_ParseDocument lib raw = Inl err \<longrightarrow>
      handleConnReq lib svc w msg =
        (Inl (fmt_Errorf ''parse did doc : '' err),
         w\<lparr>trace := trace w @ [MsgDecode, ParseDocument raw]\<rparr>))"
  by (auto simp: handleConnReq_unfold)

theorem handleConnReq_validation_order_witness:
  "handleConnReq ex_lib ex_svc ex_world
       (ex_msg registerRouteReq ''m1'' [] (Inl (errors_New ''unexpected end of JSON input'')))
     = (Inl (fmt_Errorf ''parse didcomm message : '' (errors_New ''unexpected end of JSON input'')),
        \<lparr>txns = Map.empty, trace = [MsgDecode]\<rparr>)
   \<and> handleConnReq ex_lib ex_svc ex_world
       (ex_msg registerRouteReq ''m2'' [] (Inr \<lparr>Data = None\<rparr>))
     = (Inl (errors_New ''parent thread id mandatory''), \<lparr>txns = Map.empty, trace = [MsgDecode]\<rparr>)
   \<and> handleConnReq ex_lib ex_svc ex_world
       (ex_msg registerRouteReq ''m3'' ''r1'' (Inr \<lparr>Data = Some \<lparr>DIDDoc = None\<rparr>\<rparr>))
     = (Inl (errors_New ''did document mandatory''), \<lparr>txns = Map.empty, trace = [MsgDecode]\<rparr>)
   \<and> handleConnReq ex_lib ex_svc ex_world
       (ex_msg registerRouteReq ''m4'' ''r1'' (ex_payload ''<xml/>''))
     = (Inl (fmt_Errorf ''parse did doc : '' (errors_New ''invalid document'')),
        \<lparr>txns = Map.empty, trace = [MsgDecode, ParseDocument ''<xml/>'']\<rparr>)"
  using
    handleConnReq_validation_order [where lib = ex_lib and svc = ex_svc and w = ex_world
      and msg = "ex_msg registerRouteReq ''m1'' [] (Inl (errors_New ''unexpected end of JSON input''))"
      and err = "errors_New ''unexpected end of JSON input''"]
    handleConnReq_validation_order [where lib = ex_lib and svc = ex_svc and w = ex_world
      and msg = "ex_msg registerRouteReq ''m2'' [] (Inr \<lparr>Data = None\<rparr>)"
      and pMsg = "\<lparr>Data = None\<rparr>"]
    handleConnReq_validation_order [where lib = ex_lib and svc = ex_svc and w = ex_world
      and msg = "ex_msg registerRouteReq ''m3'' ''r1'' (Inr \<lparr>Data = Some \<lparr>DIDDoc = None\<rparr>\<rparr>)"
      and pMsg = "\<lparr>Data = Some \<lparr>DIDDoc = None\<rparr>\<rparr>"]
    handleConnReq_validation_order [where lib = ex_lib and svc = ex_svc and w = ex_world
      and msg = "ex_msg registerRouteReq ''m4'' ''r1'' (ex_payload ''<xml/>'')"
      and pMsg = "\<lparr>Data = Some \<lparr>DIDDoc = Some ''<xml/>''\<rparr>\<rparr>"
      and d = "\<lparr>DIDDoc = Some ''<xml/>''\<rparr>" and raw = "''<xml/>''"
      and err = "errors_New ''invalid document''"]
  by (simp add: ex_lib_def ex_world_def ex_msg_def ex_payload_def)

text \<open>
  C4. A registration request that passes validation but whose parent thread id has no
  entry in the transaction store fails with the store's not-found error, wrapped under
  \<^verbatim>\<open>fetch txn data : \<close>; the calls made are the decode, the parse and the lookup, so
  neither the connection component nor the mediator is called.
\<close>

theorem handleConnReq_unknown_parent:
  assumes "Decode msg = Inr pMsg" and "ParentThreadID msg \<noteq> []"
    and "Data pMsg = Some d" and "DIDDoc d = Some raw"
    and "did_ParseDocument lib raw = Inr didDoc"
    and "txns w (ParentThreadID msg) = None"
  shows "handleConnReq lib svc w msg =
           (Inl (fmt_Errorf ''fetch txn data : '' ErrValueNotFound),
            w\<lparr>trace := trace w @ [MsgDecode, ParseDocument raw, StoreGet (ParentThreadID msg)]\<rparr>)
         \<and> errors_Is (fmt_Errorf ''fetch txn data : '' ErrValueNotFound) ErrValueNotFound"
  using assms by (simp add: handleConnReq_unfold)

theorem handleConnReq_unknown_parent_witness:
  "handleConnReq ex_lib ex_svc ex_world (ex_msg registerRouteReq ''m5'' ''r9'' (ex_payload ''{id:a}''))
     = (Inl (fmt_Errorf ''fetch txn data : '' ErrValueNotFound),
        \<lparr>txns = Map.empty, trace = [MsgDecode, ParseDocument ''{id:a}'', StoreGet ''r9'']\<rparr>)"
  using handleConnReq_unknown_parent [where lib = ex_lib and svc = ex_svc and w = ex_world
      and msg = "ex_msg registerRouteReq ''m5'' ''r9'' (ex_payload ''{id:a}'')"
      and pMsg = "\<lparr>Data = Some \<lparr>DIDDoc = Some ''{id:a}''\<rparr>\<rparr>"
      and d = "\<lparr>DIDDoc = Some ''{id:a}''\<rparr>" and raw = "''{id:a}''" and didDoc = "ex_doc ''a''"]
  by (simp add: ex_lib_def ex_world_def ex_msg_def ex_payload_def)

lemma handleConnReq_run:
  assumes "Decode reg = Inr pMsg" and "ParentThreadID reg \<noteq> []"
    and "Data pMsg = Some d" and "DIDDoc d = Some raw"
    and "did_ParseDocument lib raw = Inr didDoc"
    and "txns w (ParentThreadID reg) = Some myDID"
    and "didExchange svc (trace w @ [MsgDecode, ParseDocument raw, StoreGet (ParentThreadID reg)])
           myDID didDoc = Inr connID"
    and "mediator svc (trace w @ [MsgDecode, ParseDocument raw, StoreGet (ParentThreadID reg),
                                  CreateConnection myDID didDoc]) connID = None"
  shows "handleConnReq lib svc w reg =
           (Inr (ConnResp
                   (uuid_New lib (trace w @ [MsgDecode, ParseDocument raw,
                      StoreGet (ParentThreadID reg), CreateConnection myDID didDoc,
                      MediatorRegister connID]))
                   registerRouteResp),
            w\<lparr>trace := trace w @ [MsgDecode, ParseDocument raw, StoreGet (ParentThreadID reg),
                                 CreateConnection myDID didDoc, MediatorRegister connID,
                                 UUIDNew]\<rparr>)"
  using assms by (simp add: handleConnReq_unfold)




lemma calls_since_append: "trace w' = trace w @ cs \<Longrightarrow> calls_since w w' = cs"
  by (simp add: calls_since_def)


lemma ex_msg_sel:
  "Type (ex_msg t i p d) = t" "ID (ex_msg t i p d) = i"
  "ParentThreadID (ex_msg t i p d) = p" "Decode (ex_msg t i p d) = d"
  by (simp_all add: ex_msg_def)

lemma ex_svc_sel:
  "didExchange ex_svc t myDID doc = Inr (''conn:'' @ myDID)"
  "mediator ex_svc t c = None"
  "messenger ex_svc t i m = None"
  "vdriRegistry ex_svc t k e = Inr (ex_doc (if t = [] then ''a'' else ''b''))"
  "endpoint ex_svc = ''https://adapter.example/didcomm''"
  "tStore ex_svc t i v = None"
  by (simp_all add: ex_svc_def)

lemma ex_lib_parse: "did_ParseDocument ex_lib (''{id:'' @ n @ ''}'') = Inr (ex_doc n)"
  by (simp add: ex_lib_def)






section \<open>The handshake\<close>

lemma ex_req_run_first:
  "handleDIDDocReq ex_lib ex_svc ex_world ex_req
     = (Inr (DIDDocResp ''uuu'' didDocResp ''{id:a}''),
        \<lparr>txns = [''r1'' \<mapsto> ''did:peer:a''],
         trace = [VDRCreate ''peer'' ''https://adapter.example/didcomm'',
                  StorePut ''r1'' ''did:peer:a'', DocJSONBytes (ex_doc ''a''), UUIDNew]\<rparr>)"
  using ex_docreq_run by (simp add: ex_req_def)

lemma ex_req_run_second:
  "handleDIDDocReq ex_lib ex_svc
       \<lparr>txns = [''r1'' \<mapsto> ''did:peer:a''],
        trace = [VDRCreate ''peer'' ''https://adapter.example/didcomm'',
                 StorePut ''r1'' ''did:peer:a'', DocJSONBytes (ex_doc ''a''), UUIDNew]\<rparr> ex_req
     = (Inr (DIDDocResp ''uuuuuuu'' didDocResp ''{id:b}''),
        \<lparr>txns = [''r1'' \<mapsto> ''did:peer:b''],
         trace = [VDRCreate ''peer'' ''https://adapter.example/didcomm'',
                  StorePut ''r1'' ''did:peer:a'', DocJSONBytes (ex_doc ''a''), UUIDNew,
                  VDRCreate ''peer'' ''https://adapter.example/didcomm'',
                  StorePut ''r1'' ''did:peer:b'', DocJSONBytes (ex_doc ''b''), UUIDNew]\<rparr>)"
  by (simp add: handleDIDDocReq_def Put_def called_def Let_def ex_lib_def ex_svc_def
        ex_req_def ex_msg_def ex_doc_def)

text \<open>
  C2. The round trip. After a document request with a non-empty id \<open>k\<close> has succeeded
  (\<^verbatim>\<open>r1\<close> in the scenario), take a registration request whose parent thread id is \<open>k\<close> and
  whose document is the bytes the response carried, and let those bytes parse and the
  connection component and the mediator accept. Then \<open>handleConnReq\<close> returns a
  \<open>ConnResp\<close> (which has no payload) of type \<open>registerRouteResp\<close>, the base URI followed
  by \<^verbatim>\<open>/register-route-resp\<close>, and the one call to the connection component has for
  \<^verbatim>\<open>myDID\<close> the value the store holds under \<open>k\<close>, the id of the document created for
  the request. When two document requests with the id \<open>k\<close> come before the registration
  request, that value is the id of the document created for the second: the last put
  wins.
\<close>

theorem handshake_round_trip:
  "(handleDIDDocReq lib svc w req = (Inr (DIDDocResp i t docBytes), w1)
      \<and> vdriRegistry svc (trace w) ''peer'' (endpoint svc) = Inr newDidDoc
      \<and> ID req = k \<and> k \<noteq> []
      \<and> ParentThreadID reg = k \<and> Decode reg = Inr pMsg
      \<and> Data pMsg = Some d \<and> DIDDoc d = Some docBytes
      \<and> did_ParseDocument lib docBytes = Inr didDoc
      \<and> didExchange svc (trace w1 @ [MsgDecode, ParseDocument docBytes, StoreGet k])
            (Doc_ID newDidDoc) didDoc = Inr connID
      \<and> mediator svc (trace w1 @ [MsgDecode, ParseDocument docBytes, StoreGet k,
                                   CreateConnection (Doc_ID newDidDoc) didDoc]) connID = None
    \<longrightarrow>
      txns w1 k = Some (Doc_ID newDidDoc)
      \<and> (\<exists>j. handleConnReq lib svc w1 reg =
                (Inr (ConnResp j registerRouteResp),
                 w1\<lparr>trace := trace w1 @ [MsgDecode, ParseDocument docBytes, StoreGet k,
                                        CreateConnection (Doc_ID newDidDoc) didDoc,
                                        MediatorRegister connID, UUIDNew]\<rparr>))
      \<and> registerRouteResp = msgTypeBaseURI @ ''/register-route-resp'')
   \<and> (handleDIDDocReq lib svc w0 req0 = (Inr m0, w)
      \<and> ID req0 = k
      \<and> vdriRegistry svc (trace w0) ''peer'' (endpoint svc) = Inr oldDidDoc
      \<and> handleDIDDocReq lib svc w req = (Inr (DIDDocResp i t docBytes), w1)
      \<and> vdriRegistry svc (trace w) ''peer'' (endpoint svc) = Inr newDidDoc
      \<and> ID req = k \<and> k \<noteq> []
      \<and> ParentThreadID reg = k \<and> Decode reg = Inr pMsg
      \<and> Data pMsg = Some d \<and> DIDDoc d = Some docBytes
      \<and> did_ParseDocument lib docBytes = Inr didDoc
      \<and> didExchange svc (trace w1 @ [MsgDecode, ParseDocument docBytes, StoreGet k])
            (Doc_ID newDidDoc) didDoc = Inr connID
      \<and> mediator svc (trace w1 @ [MsgDecode, ParseDocument docBytes, StoreGet k,
                                   CreateConnection (Doc_ID newDidDoc) didDoc]) connID = None
    \<longrightarrow>
      txns w k = Some (Doc_ID oldDidDoc)
      \<and> txns w1 k = Some (Doc_ID newDidDoc)
      \<and> (\<exists>j. handleConnReq lib svc w1 reg =
                (Inr (ConnResp j registerRouteResp),
                 w1\<lparr>trace := trace w1 @ [MsgDecode, ParseDocument docBytes, StoreGet k,
                                        CreateConnection (Doc_ID newDidDoc) didDoc,
                                        MediatorRegister connID, UUIDNew]\<rparr>)))"
proof -
  have one: "txns w1 k = Some (Doc_ID newDidDoc)
      \<and> (\<exists>j. handleConnReq lib svc w1 reg =
                (Inr (ConnResp j registerRouteResp),
                 w1\<lparr>trace := trace w1 @ [MsgDecode, ParseDocument docBytes, StoreGet k,
                                        CreateConnection (Doc_ID newDidDoc) didDoc,
                                        MediatorRegister connID, UUIDNew]\<rparr>))"
    if run: "handleDIDDocReq lib svc w req = (Inr (DIDDocResp i t docBytes), w1)"
      and new: "vdriRegistry svc (trace w) ''peer'' (endpoint svc) = Inr newDidDoc"
      and k: "ID req = k" "k \<noteq> []"
      and reg: "ParentThreadID reg = k" "Decode reg = Inr pMsg"
        "Data pMsg = Some d" "DIDDoc d = Some docBytes"
        "did_ParseDocument lib docBytes = Inr didDoc"
      and dx: "didExchange svc (trace w1 @ [MsgDecode, ParseDocument docBytes, StoreGet k])
            (Doc_ID newDidDoc) didDoc = Inr connID"
      and md: "mediator svc (trace w1 @ [MsgDecode, ParseDocument docBytes, StoreGet k,
                                   CreateConnection (Doc_ID newDidDoc) didDoc]) connID = None"
    for w w1 :: world
  proof -
    from handleDIDDocReq_Inr [OF run] new k
    have st: "txns w1 k = Some (Doc_ID newDidDoc)" by auto
    have p: "ParentThreadID reg \<noteq> []" using reg(1) k(2) by simp
    from st reg(1) have st': "txns w1 (ParentThreadID reg) = Some (Doc_ID newDidDoc)" by simp
    from dx md reg(1)
    have dx': "didExchange svc (trace w1 @ [MsgDecode, ParseDocument docBytes,
                 StoreGet (ParentThreadID reg)]) (Doc_ID newDidDoc) didDoc = Inr connID"
      and md': "mediator svc (trace w1 @ [MsgDecode, ParseDocument docBytes,
                 StoreGet (ParentThreadID reg), CreateConnection (Doc_ID newDidDoc) didDoc])
                 connID = None"
      by simp_all
    from handleConnReq_run [OF reg(2) p reg(3) reg(4) reg(5) st' dx' md', of ] reg(1) st
    show ?thesis by simp
  qed
  have old: "txns w k = Some (Doc_ID oldDidDoc)"
    if run: "handleDIDDocReq lib svc w0 req0 = (Inr m0, w)"
      and k0: "ID req0 = k"
      and od: "vdriRegistry svc (trace w0) ''peer'' (endpoint svc) = Inr oldDidDoc"
    using handleDIDDocReq_Inr [OF run] k0 od by auto
  show ?thesis
    using one [of w w1] old by (simp add: registerRouteResp_def)
qed

theorem handshake_round_trip_witness:
  "handleDIDDocReq ex_lib ex_svc ex_world ex_req
     = (Inr (DIDDocResp ''uuu'' didDocResp ''{id:a}''), ex_world1)
   \<and> handleDIDDocReq ex_lib ex_svc ex_world1 ex_req
     = (Inr (DIDDocResp ''uuuuuuu'' didDocResp ''{id:b}''), ex_world2)
   \<and> txns ex_world1 ''r1'' = Some ''did:peer:a''
   \<and> txns ex_world2 ''r1'' = Some ''did:peer:b''
   \<and> (\<exists>j. handleConnReq ex_lib ex_svc ex_world2 (ex_reg ''{id:b}'')
            = (Inr (ConnResp j registerRouteResp),
               ex_world2\<lparr>trace := trace ex_world2 @
                  [MsgDecode, ParseDocument ''{id:b}'', StoreGet ''r1'',
                   CreateConnection ''did:peer:b'' (ex_doc ''b''),
                   MediatorRegister ''conn:did:peer:b'', UUIDNew]\<rparr>))"
proof -
  have r1: "handleDIDDocReq ex_lib ex_svc ex_world ex_req
     = (Inr (DIDDocResp ''uuu'' didDocResp ''{id:a}''), ex_world1)"
    using ex_req_run_first by (simp add: ex_world1_def)
  have r2: "handleDIDDocReq ex_lib ex_svc ex_world1 ex_req
     = (Inr (DIDDocResp ''uuuuuuu'' didDocResp ''{id:b}''), ex_world2)"
    using ex_req_run_second by (simp add: ex_world1_def ex_world2_def)
  have v1: "vdriRegistry ex_svc (trace ex_world) ''peer'' (endpoint ex_svc) = Inr (ex_doc ''a'')"
    by (simp add: ex_svc_sel ex_world_def)
  have v2: "vdriRegistry ex_svc (trace ex_world1) ''peer'' (endpoint ex_svc) = Inr (ex_doc ''b'')"
    by (simp add: ex_svc_sel ex_world1_def)
  have id: "Doc_ID (ex_doc ''a'') = ''did:peer:a''" "Doc_ID (ex_doc ''b'') = ''did:peer:b''"
    by (simp_all add: ex_doc_def)
  have reg: "ID ex_req = ''r1''" "ParentThreadID (ex_reg ''{id:b}'') = ''r1''"
    "Decode (ex_reg ''{id:b}'') = Inr \<lparr>Data = Some \<lparr>DIDDoc = Some ''{id:b}''\<rparr>\<rparr>"
    "did_ParseDocument ex_lib ''{id:b}'' = Inr (ex_doc ''b'')"
    using ex_lib_parse [of "''b''"]
    by (simp_all add: ex_req_def ex_reg_def ex_msg_sel ex_payload_def)
  from handshake_round_trip [where lib = ex_lib and svc = ex_svc
      and ?w0.0 = ex_world and ?req0.0 = ex_req and ?m0.0 = "DIDDocResp ''uuu'' didDocResp ''{id:a}''"
      and oldDidDoc = "ex_doc ''a''"
      and w = ex_world1 and req = ex_req and i = "''uuuuuuu''" and t = didDocResp
      and docBytes = "''{id:b}''" and ?w1.0 = ex_world2 and newDidDoc = "ex_doc ''b''"
      and k = "''r1''" and reg = "ex_reg ''{id:b}''"
      and pMsg = "\<lparr>Data = Some \<lparr>DIDDoc = Some ''{id:b}''\<rparr>\<rparr>"
      and d = "\<lparr>DIDDoc = Some ''{id:b}''\<rparr>" and didDoc = "ex_doc ''b''"
      and connID = "''conn:did:peer:b''"]
    r1 r2 v1 v2
  show ?thesis
    by (simp add: id reg ex_svc_sel)
qed

section \<open>The dispatcher\<close>


lemma replies_append: "replies (cs @ ds) = replies cs @ replies ds"
  by (induction cs rule: replies.induct) simp_all

lemma handleDIDDocReq_calls:
  "\<exists>cs. trace (snd (handleDIDDocReq lib svc w msg)) = trace w @ cs \<and> replies cs = []"
  by (simp add: handleDIDDocReq_def Put_def called_def Let_def split: sum.splits option.splits)

lemma handleConnReq_calls:
  "\<exists>cs. trace (snd (handleConnReq lib svc w msg)) = trace w @ cs \<and> replies cs = []"
  by (simp add: handleConnReq_unfold split: sum.splits option.splits)

text \<open>A turn of the loop replies exactly once, to the id of its message.\<close>

lemma didCommMsgListener_turn_calls:
  "\<exists>cs. trace (didCommMsgListener_turn lib svc w msg) = trace w @ cs \<and> replies cs = [ID msg]"
proof -
  obtain ds where ds: "trace (snd (handleDIDDocReq lib svc w msg)) = trace w @ ds" "replies ds = []"
    using handleDIDDocReq_calls by blast
  obtain cs where cs: "trace (snd (handleConnReq lib svc w msg)) = trace w @ cs" "replies cs = []"
    using handleConnReq_calls by blast
  show ?thesis
    using ds cs
    by (cases "handleDIDDocReq lib svc w msg"; cases "handleConnReq lib svc w msg")
      (simp add: didCommMsgListener_turn_def called_def Let_def replies_append
         split: sum.splits option.splits)
qed

text \<open>The loop gives each message of the channel its turn, in the order received.\<close>

lemma didCommMsgListener_append:
  "didCommMsgListener lib svc w (pre @ post)
     = didCommMsgListener lib svc (didCommMsgListener lib svc w pre) post"
  by (induction pre arbitrary: w) simp_all

lemma didCommMsgListener_at:
  "didCommMsgListener lib svc w (pre @ msg # post)
     = didCommMsgListener lib svc
         (didCommMsgListener_turn lib svc (didCommMsgListener lib svc w pre) msg) post"
  by (simp add: didCommMsgListener_append)

lemma didCommMsgListener_calls:
  "\<exists>cs. trace (didCommMsgListener lib svc w ch) = trace w @ cs \<and> replies cs = map ID ch"
proof (induction ch arbitrary: w)
  case Nil
  then show ?case by simp
next
  case (Cons msg ch)
  obtain cs where cs: "trace (didCommMsgListener_turn lib svc w msg) = trace w @ cs"
    "replies cs = [ID msg]"
    using didCommMsgListener_turn_calls by blast
  from Cons.IH [of "didCommMsgListener_turn lib svc w msg"] obtain ds where
    ds: "trace (didCommMsgListener lib svc (didCommMsgListener_turn lib svc w msg) ch)
           = trace (didCommMsgListener_turn lib svc w msg) @ ds"
    "replies ds = map ID ch"
    by blast
  from cs ds show ?case
    by (simp add: replies_append)
qed

lemma didCommMsgListener_replies:
  "replies (calls_since w (didCommMsgListener lib svc w ch)) = map ID ch"
  using didCommMsgListener_calls [of lib svc w ch] by (auto simp: calls_since_append)


lemma didCommMsgListener_turn_unsupported_type:
  assumes "Type msg \<noteq> didDocReq" and "Type msg \<noteq> registerRouteReq"
  shows "\<exists>u l c.
           trace (didCommMsgListener_turn lib svc w msg) =
             trace w @ [UUIDNew, LoggerErrorf l,
                        ReplyTo (ID msg)
                          (ErrorResp u (Type msg)
                             (''unsupported message service type : '' @ Type msg)),
                        c]
         \<and> (\<exists>s. c = LoggerErrorf s \<or> c = LoggerInfof s)
         \<and> txns (didCommMsgListener_turn lib svc w msg) = txns w"
  using assms
  by (simp add: didCommMsgListener_turn_def called_def Let_def split: option.splits)



text \<open>
  C6. Let a message whose type is neither of the two request types stand anywhere in
  the channel. The dispatcher, run over the channel, makes for it the calls shown and
  no other: it replies exactly once, to the id of the message, with an \<open>ErrorResp\<close>
  whose type is the type of the message as it came and whose message is
  \<^verbatim>\<open>unsupported message service type : \<close> followed by that type; no handler runs and the
  store is as it was before the turn. Over the whole channel the replies are, in order,
  one to the id of each message.
\<close>

theorem didCommMsgListener_unsupported_type:
  assumes "Type msg \<noteq> didDocReq" and "Type msg \<noteq> registerRouteReq"
  shows "\<exists>u l c rest.
           trace (didCommMsgListener lib svc w (pre @ msg # post)) =
             trace (didCommMsgListener lib svc w pre)
               @ [UUIDNew, LoggerErrorf l,
                  ReplyTo (ID msg)
                    (ErrorResp u (Type msg)
                       (''unsupported message service type : '' @ Type msg)),
                  c]
               @ rest
         \<and> (\<exists>s. c = LoggerErrorf s \<or> c = LoggerInfof s)
         \<and> replies rest = map ID post
         \<and> txns (didCommMsgListener lib svc w (pre @ [msg]))
             = txns (didCommMsgListener lib svc w pre)
         \<and> replies (calls_since w (didCommMsgListener lib svc w (pre @ msg # post)))
             = map ID pre @ ID msg # map ID post"
proof -
  define w' where "w' = didCommMsgListener lib svc w pre"
  from didCommMsgListener_turn_unsupported_type [OF assms, of lib svc w']
  obtain u l c where turn:
    "trace (didCommMsgListener_turn lib svc w' msg) =
       trace w' @ [UUIDNew, LoggerErrorf l,
                   ReplyTo (ID msg)
                     (ErrorResp u (Type msg)
                        (''unsupported message service type : '' @ Type msg)),
                   c]"
    and c: "\<exists>s. c = LoggerErrorf s \<or> c = LoggerInfof s"
    and t: "txns (didCommMsgListener_turn lib svc w' msg) = txns w'"
    by blast
  obtain rest where rest:
    "trace (didCommMsgListener lib svc (didCommMsgListener_turn lib svc w' msg) post)
       = trace (didCommMsgListener_turn lib svc w' msg) @ rest"
    "replies rest = map ID post"
    using didCommMsgListener_calls by blast
  have a: "trace (didCommMsgListener lib svc w (pre @ msg # post)) =
          trace w' @ [UUIDNew, LoggerErrorf l,
                      ReplyTo (ID msg)
                        (ErrorResp u (Type msg)
                           (''unsupported message service type : '' @ Type msg)),
                      c] @ rest"
    using turn rest(1) by (simp add: didCommMsgListener_at w'_def)
  have b: "txns (didCommMsgListener lib svc w (pre @ [msg])) = txns w'"
    using t by (simp add: didCommMsgListener_append w'_def)
  have r: "replies (calls_since w (didCommMsgListener lib svc w (pre @ msg # post)))
             = map ID pre @ ID msg # map ID post"
    by (simp add: didCommMsgListener_replies)
  from a b c r rest(2) show ?thesis
    unfolding w'_def by blast
qed

theorem didCommMsgListener_unsupported_type_witness:
  "\<exists>u l c rest.
     trace (didCommMsgListener ex_lib ex_svc ex_world [ex_req, ex_ping, ex_reg ''{id:a}''])
       = trace (didCommMsgListener ex_lib ex_svc ex_world [ex_req])
           @ [UUIDNew, LoggerErrorf l,
              ReplyTo ''m9''
                (ErrorResp u ''https://didcomm.org/trust-ping/1.0/ping''
                   ''unsupported message service type : https://didcomm.org/trust-ping/1.0/ping''),
              c]
           @ rest
     \<and> replies rest = [''m7'']
     \<and> replies (calls_since ex_world
          (didCommMsgListener ex_lib ex_svc ex_world [ex_req, ex_ping, ex_reg ''{id:a}'']))
         = [''r1'', ''m9'', ''m7'']"
proof -
  have t: "Type ex_ping \<noteq> didDocReq" "Type ex_ping \<noteq> registerRouteReq"
    by (simp_all add: ex_ping_def ex_msg_sel didDocReq_def registerRouteReq_def
          msgTypeBaseURI_def)
  have i: "Type ex_ping = ''https://didcomm.org/trust-ping/1.0/ping''" "ID ex_ping = ''m9''"
    "ID ex_req = ''r1''" "ID (ex_reg ''{id:a}'') = ''m7''"
    by (simp_all add: ex_ping_def ex_req_def ex_reg_def ex_msg_sel)
  from didCommMsgListener_unsupported_type [OF t, where lib = ex_lib and svc = ex_svc
      and w = ex_world and pre = "[ex_req]" and post = "[ex_reg ''{id:a}'']"]
  show ?thesis
    by (auto simp: i)
qed

end
